theory Spec2Isabelle
  imports Main "HOL-Library.Sublist"
begin

section \<open>The COCO dataset adapters of utils/dataset.py\<close>

text \<open>
  The file \<^verbatim>\<open>3. Model/objectdetection/Faster-RCNN/utils/dataset.py\<close> defines two
  dataset classes over a COCO annotation store: \<^verbatim>\<open>myCocoDetection\<close> and the
  category-restricted \<^verbatim>\<open>myCocolimit\<close>. Both keep a list \<^verbatim>\<open>ids\<close> of image ids that
  is computed once in \<^verbatim>\<open>__init__\<close>, and both derive boxes and labels from the
  annotations of one image in \<^verbatim>\<open>__getitem__\<close>.

  The store (pycocotools), the image reader (PIL) and the tensor library (torch) are
  not part of the repository. They enter the model as parameters: the functions below
  hold for every behaviour of these collaborators, and what a theorem needs of them is
  written as a premise.
\<close>

subsection \<open>Errors and Python list indexing\<close>

datatype error =
    IndexError            \<comment> \<open>a list subscript out of range\<close>
  | RuntimeError_shape    \<comment> \<open>torch: the shape [-1, 4] is invalid for the input size\<close>
  | RuntimeError_overflow \<comment> \<open>torch: overflow when unpacking a Python int\<close>
  | External string       \<comment> \<open>whatever a collaborator raises (image file, transform)\<close>

text \<open>
  \<^verbatim>\<open>xs[i]\<close> on a Python list: an index from \<^verbatim>\<open>-len(xs)\<close> to \<^verbatim>\<open>-1\<close> counts from the
  end of the list, and every index outside \<^verbatim>\<open>-len(xs) .. len(xs) - 1\<close> raises IndexError.
\<close>

definition subscript :: "'a list \<Rightarrow> int \<Rightarrow> error + 'a" where
  "subscript xs i =
     (if 0 \<le> i \<and> i < int (length xs) then Inr (xs ! nat i)
      else if i < 0 \<and> - int (length xs) \<le> i then Inr (xs ! nat (int (length xs) + i))
      else Inl IndexError)"

text \<open>Sequencing of a step that may raise with the rest of the function body.\<close>

definition and_then :: "error + 'a \<Rightarrow> ('a \<Rightarrow> error + 'b) \<Rightarrow> error + 'b" where
  "and_then r f = (case r of Inl e \<Rightarrow> Inl e | Inr x \<Rightarrow> f x)"

subsection \<open>Data: annotations, the store, the transform\<close>

text \<open>
  An annotation is a dict of the COCO file; the code reads its keys \<^verbatim>\<open>'bbox'\<close> (a list
  of numbers \<^verbatim>\<open>[x, y, width, height]\<close>) and \<^verbatim>\<open>'category_id'\<close>. The type of the numbers
  is the parameter \<open>'a\<close>: the code only adds them and compares them with 1.
\<close>

record 'a annotation =
  bbox :: "'a list"
  category_id :: int

text \<open>
  What the classes ask of \<^verbatim>\<open>self.coco\<close> and of the image files:
  \<^item> \<open>imgs_keys\<close> is \<^verbatim>\<open>list(sorted(self.coco.imgs.keys()))\<close>, the value the parent class
    \<^verbatim>\<open>CocoDetection\<close> gives \<^verbatim>\<open>self.ids\<close> (line 21 of the source quotes it);
  \<^item> \<open>getAnnIds c i\<close> is \<^verbatim>\<open>self.coco.getAnnIds(imgIds=i)\<close>;
  \<^item> \<open>loadAnns c as\<close> is \<^verbatim>\<open>self.coco.loadAnns(as)\<close>;
  \<^item> \<open>getCatIds c names\<close> is \<^verbatim>\<open>self.coco.getCatIds(catNms=names)\<close>;
  \<^item> \<open>getImgIds c k\<close> is \<^verbatim>\<open>self.coco.getImgIds(catIds=k)\<close>;
  \<^item> \<open>load_image c i\<close> is the method \<^verbatim>\<open>_load_image\<close> (lines 77-79), whose body is the
    file-name lookup and \<^verbatim>\<open>Image.open(...).convert("RGB")\<close>; it may raise.
\<close>

record ('a, 'img) coco =
  imgs_keys :: "int list"
  getAnnIds :: "int \<Rightarrow> int list"
  loadAnns :: "int list \<Rightarrow> 'a annotation list"
  getCatIds :: "string list \<Rightarrow> int list"
  getImgIds :: "int \<Rightarrow> int list"
  load_image :: "int \<Rightarrow> error + 'img"

text \<open>
  \<^verbatim>\<open>self.transform\<close> is one callable that the code applies to the image and to the
  array \<^verbatim>\<open>np.array(bboxes)\<close>. \<open>on_array\<close> returns the elements of the resulting tensor in
  row-major order, which is all that \<^verbatim>\<open>reshape(-1, 4)\<close> reads. Either call may raise.

  The code tests the attribute with \<^verbatim>\<open>if self.transform:\<close> (lines 63 and 139) and calls
  it only when the test succeeds. In a dataset, \<open>transform = None\<close> stands for every
  value the test takes as false (\<^verbatim>\<open>None\<close>, or any other falsy object), which is never
  called, and \<open>transform = Some tf\<close> for a callable the test takes as true.
\<close>

record ('a, 'img) transform =
  on_image :: "'img \<Rightarrow> error + 'img"
  on_array :: "'a list list \<Rightarrow> error + 'a list"

text \<open>
  The attributes of a dataset object. \<^verbatim>\<open>myCocolimit\<close> adds \<^verbatim>\<open>class_list\<close> and \<^verbatim>\<open>catIds\<close>.
  The attribute \<^verbatim>\<open>show\<close> is named \<open>show_mode\<close> here.
\<close>

record ('a, 'img) myCocoDetection =
  coco :: "('a, 'img) coco"
  ids :: "int list"
  transform :: "('a, 'img) transform option"
  show_mode :: bool

record ('a, 'img) myCocolimit = "('a, 'img) myCocoDetection" +
  class_list :: "string list"
  catIds :: "int list"

subsection \<open>The validity predicate (lines 36-43 and 112-119)\<close>

text \<open>The inner loop over \<^verbatim>\<open>obj['bbox'][2:]\<close>: it returns False at the first value \<open>\<le> 1\<close>.\<close>

fun sizes_ok :: "('a::{one,ord}) list \<Rightarrow> bool" where
  "sizes_ok [] = True"
| "sizes_ok (v # vs) = (if v \<le> 1 then False else sizes_ok vs)"

text \<open>The outer loop over the annotations.\<close>

fun boxes_ok :: "('a::{one,ord}) annotation list \<Rightarrow> bool" where
  "boxes_ok [] = True"
| "boxes_ok (obj # anno) = (if sizes_ok (drop 2 (bbox obj)) then boxes_ok anno else False)"

definition is_valid_data :: "('a::{one,ord}) annotation list \<Rightarrow> bool" where
  "is_valid_data anno = (if length anno = 0 then False else boxes_ok anno)"

subsection \<open>Construction\<close>

text \<open>
  The loop of lines 23-29 (and 99-105, the same text): \<open>acc\<close> is the local list \<^verbatim>\<open>ids\<close>.
  Note that both classes load the annotations with \<^verbatim>\<open>getAnnIds\<close> and \<^verbatim>\<open>loadAnns\<close> here,
  not through \<^verbatim>\<open>_load_target\<close>.
\<close>

fun keep_valid :: "('a::{one,ord}, 'img) coco \<Rightarrow> int list \<Rightarrow> int list \<Rightarrow> int list" where
  "keep_valid c [] acc = acc"
| "keep_valid c (img_id # rest) acc =
     (let ann_ids = getAnnIds c img_id;
          anno = loadAnns c ann_ids
      in if is_valid_data anno then keep_valid c rest (acc @ [img_id])
         else keep_valid c rest acc)"

definition myCocoDetection_init ::
  "('a::{one,ord}, 'img) coco \<Rightarrow> ('a, 'img) transform option \<Rightarrow> bool \<Rightarrow> bool
     \<Rightarrow> ('a, 'img) myCocoDetection" where
  "myCocoDetection_init c tf remove_invalid_data sh =
     \<lparr> coco = c,
       ids = (if remove_invalid_data then keep_valid c (imgs_keys c) [] else imgs_keys c),
       transform = tf,
       show_mode = sh \<rparr>"

text \<open>Lines 94-96: \<^verbatim>\<open>self.ids.extend(self.coco.getImgIds(catIds=id))\<close> for each id.\<close>

fun extend_ids :: "('a, 'img) coco \<Rightarrow> int list \<Rightarrow> int list \<Rightarrow> int list" where
  "extend_ids c [] acc = acc"
| "extend_ids c (k # ks) acc = extend_ids c ks (acc @ getImgIds c k)"

definition myCocolimit_init ::
  "('a::{one,ord}, 'img) coco \<Rightarrow> ('a, 'img) transform option \<Rightarrow> string list \<Rightarrow> bool \<Rightarrow> bool
     \<Rightarrow> ('a, 'img) myCocolimit" where
  "myCocolimit_init c tf cl remove_invalid_data sh =
     (let cats = getCatIds c cl;
          ids0 = extend_ids c cats []
      in \<lparr> coco = c,
           ids = (if remove_invalid_data then keep_valid c ids0 [] else ids0),
           transform = tf,
           show_mode = sh,
           class_list = cl,
           catIds = cats \<rparr>)"

subsection \<open>Retrieval\<close>

text \<open>\<^verbatim>\<open>_load_target\<close> of \<^verbatim>\<open>myCocoDetection\<close> (lines 81-82).\<close>

definition myCocoDetection_load_target ::
  "('a, 'img, 'z) myCocoDetection_scheme \<Rightarrow> int \<Rightarrow> 'a annotation list" where
  "myCocoDetection_load_target d i = loadAnns (coco d) (getAnnIds (coco d) i)"

text \<open>\<^verbatim>\<open>_load_target\<close> of \<^verbatim>\<open>myCocolimit\<close> (lines 157-160).\<close>

definition myCocolimit_load_target ::
  "('a, 'img, 'z) myCocolimit_scheme \<Rightarrow> int \<Rightarrow> 'a annotation list" where
  "myCocolimit_load_target d i =
     (let original = loadAnns (coco d) (getAnnIds (coco d) i);
          new = filter (\<lambda>ann. category_id ann \<in> set (catIds d)) original
      in new)"

text \<open>
  Lines 53-56: the four subscripts of \<^verbatim>\<open>obj['bbox']\<close>, in the order the list display
  evaluates them. A bbox of fewer than four numbers raises IndexError.
\<close>

definition corner_box :: "('a::plus) list \<Rightarrow> error + 'a list" where
  "corner_box b =
     and_then (subscript b 0) (\<lambda>x1.
     and_then (subscript b 1) (\<lambda>y1.
     and_then (subscript b 0) (\<lambda>x.
     and_then (subscript b 2) (\<lambda>w.
     and_then (subscript b 1) (\<lambda>y.
     and_then (subscript b 3) (\<lambda>h.
       Inr [x1, y1, x + w, y + h]))))))"

text \<open>The loop of lines 51-58 (and 127-134), with its two lists as accumulators.\<close>

fun collect ::
  "('a::plus) annotation list \<Rightarrow> 'a list list \<Rightarrow> int list \<Rightarrow> error + ('a list list \<times> int list)" where
  "collect [] bboxes labels = Inr (bboxes, labels)"
| "collect (obj # target) bboxes labels =
     and_then (corner_box (bbox obj)) (\<lambda>b.
       collect target (bboxes @ [b]) (labels @ [category_id obj]))"

text \<open>
  \<^verbatim>\<open>reshape(-1, 4)\<close> of a tensor: rows of four elements in row-major order; torch
  raises RuntimeError when the number of elements is not a multiple of 4.
\<close>

fun rows4 :: "'a list \<Rightarrow> 'a list list" where
  "rows4 (a # b # c # d # rest) = [a, b, c, d] # rows4 rest"
| "rows4 _ = []"

definition reshape4 :: "'a list \<Rightarrow> error + 'a list list" where
  "reshape4 flat = (if length flat mod 4 = 0 then Inr (rows4 flat) else Inl RuntimeError_shape)"

text \<open>
  \<^verbatim>\<open>torch.tensor(labels).type(torch.int64)\<close>: torch raises RuntimeError (overflow) on a
  Python int outside the 64-bit range, and keeps every other value.
\<close>

definition int64_tensor :: "int list \<Rightarrow> error + int list" where
  "int64_tensor labels =
     (if list_all (\<lambda>v. - (2 ^ 63) \<le> v \<and> v < 2 ^ 63) labels then Inr labels
      else Inl RuntimeError_overflow)"

text \<open>
  The two shapes \<^verbatim>\<open>__getitem__\<close> returns: \<^verbatim>\<open>(image, bboxes, labels)\<close> at lines 61 and 75,
  and \<^verbatim>\<open>(idx, image, targets)\<close> at line 73, where \<^verbatim>\<open>targets\<close> holds \<^verbatim>\<open>'boxes'\<close> and
  \<^verbatim>\<open>'labels'\<close>.
\<close>

datatype ('a, 'img) item =
    Plain 'img "'a list list" "int list"
  | WithTargets int 'img "'a list list" "int list"

text \<open>
  The body of \<^verbatim>\<open>__getitem__\<close>, which is the same text in both classes (lines 46-75
  and 122-151) and differs only in the \<^verbatim>\<open>_load_target\<close> it calls. \<open>float32\<close> is the
  element conversion of \<^verbatim>\<open>bboxes.type(torch.FloatTensor)\<close>.
\<close>

definition getitem_body ::
  "('a \<Rightarrow> 'a) \<Rightarrow> (int \<Rightarrow> ('a::plus) annotation list) \<Rightarrow> ('a, 'img, 'z) myCocoDetection_scheme
     \<Rightarrow> int \<Rightarrow> error + ('a, 'img) item" where
  "getitem_body float32 load_target d index =
     and_then (subscript (ids d) index) (\<lambda>idx.
     and_then (load_image (coco d) idx) (\<lambda>image.
     and_then (collect (load_target idx) [] []) (\<lambda>(bboxes, labels).
       if show_mode d then Inr (Plain image bboxes labels)
       else case transform d of
         Some tf \<Rightarrow>
           and_then (on_image tf image) (\<lambda>image'.
           and_then (on_array tf bboxes) (\<lambda>flat.
           and_then (reshape4 flat) (\<lambda>rows.
           and_then (int64_tensor labels) (\<lambda>labels'.
             Inr (WithTargets idx image' (map (map float32) rows) labels')))))
       | None \<Rightarrow> Inr (Plain image bboxes labels))))"

definition myCocoDetection_getitem ::
  "('a \<Rightarrow> 'a) \<Rightarrow> ('a::plus, 'img) myCocoDetection \<Rightarrow> int \<Rightarrow> error + ('a, 'img) item" where
  "myCocoDetection_getitem float32 d index =
     getitem_body float32 (myCocoDetection_load_target d) d index"

definition myCocolimit_getitem ::
  "('a \<Rightarrow> 'a) \<Rightarrow> ('a::plus, 'img) myCocolimit \<Rightarrow> int \<Rightarrow> error + ('a, 'img) item" where
  "myCocolimit_getitem float32 d index =
     getitem_body float32 (myCocolimit_load_target d) d index"

subsection \<open>Reading a result\<close>

text \<open>The boxes and the labels of a returned record, whichever of the two shapes it has.\<close>

fun boxes_of :: "('a, 'img) item \<Rightarrow> 'a list list" where
  "boxes_of (Plain img bboxes labels) = bboxes"
| "boxes_of (WithTargets idx img bboxes labels) = bboxes"

fun labels_of :: "('a, 'img) item \<Rightarrow> int list" where
  "labels_of (Plain img bboxes labels) = labels"
| "labels_of (WithTargets idx img bboxes labels) = labels"

text \<open>The list that lines 53-56 build from a bbox of at least four numbers.\<close>

definition corners :: "('a::plus) list \<Rightarrow> 'a list" where
  "corners b = [b ! 0, b ! 1, b ! 0 + b ! 2, b ! 1 + b ! 3]"

subsection \<open>A small store for concrete runs\<close>

text \<open>
  A store given by three tables, indexed the way pycocotools indexes an annotation
  file: the image ids, the categories \<open>(id, name)\<close> and the annotations
  \<open>(annotation id, image id, annotation)\<close>. \<^verbatim>\<open>getCatIds\<close> returns every category for an
  empty list of names, and \<^verbatim>\<open>getImgIds\<close> returns each image of a category once. The
  image data of image \<open>i\<close> is represented by \<open>i\<close> itself.
\<close>

definition table_coco ::
  "int list \<Rightarrow> (int \<times> string) list \<Rightarrow> (int \<times> int \<times> 'a annotation) list \<Rightarrow> ('a, int) coco" where
  "table_coco images cats rows =
     \<lparr> imgs_keys = sort images,
       getAnnIds = (\<lambda>i. [a. (a, im, r) \<leftarrow> rows, im = i]),
       loadAnns = (\<lambda>as. [r. a \<leftarrow> as, (a', im, r) \<leftarrow> rows, a' = a]),
       getCatIds = (\<lambda>names. [k. (k, n) \<leftarrow> cats, names = [] \<or> n \<in> set names]),
       getImgIds = (\<lambda>k. remdups [im. (a, im, r) \<leftarrow> rows, category_id r = k]),
       load_image = (\<lambda>i. if i \<in> set images then Inr i else Inl (External ''KeyError'')) \<rparr>"

text \<open>
  Four images. Image 1 shows a person and a dog, image 2 has no annotation, image 3 a
  dog whose box is one pixel wide, image 4 a person and a cat whose box is one pixel
  wide and high.
\<close>

definition demo :: "(int, int) coco" where
  "demo = table_coco [1, 2, 3, 4]
     [(1, ''person''), (17, ''cat''), (18, ''dog'')]
     [(101, 1, \<lparr>bbox = [10, 10, 50, 80], category_id = 1\<rparr>),
      (102, 1, \<lparr>bbox = [5, 5, 20, 20], category_id = 18\<rparr>),
      (103, 3, \<lparr>bbox = [0, 0, 1, 5], category_id = 18\<rparr>),
      (104, 4, \<lparr>bbox = [1, 2, 30, 40], category_id = 1\<rparr>),
      (105, 4, \<lparr>bbox = [3, 3, 1, 1], category_id = 17\<rparr>)]"

text \<open>
  Four transforms over \<open>demo\<close>. \<open>as_tensor\<close> returns the values of the array as they
  are, the way \<^verbatim>\<open>transforms.ToTensor()\<close> treats an N x 4 array. \<open>repeat_twice\<close> returns
  them twice over and \<open>first_four\<close>, \<open>first_six\<close> return the first four and six of them,
  as a resize or a crop of the pixel grid would change the number of values.
\<close>

definition as_tensor :: "(int, int) transform" where
  "as_tensor = \<lparr> on_image = Inr, on_array = (\<lambda>bboxes. Inr (concat bboxes)) \<rparr>"

definition repeat_twice :: "(int, int) transform" where
  "repeat_twice =
     \<lparr> on_image = Inr, on_array = (\<lambda>bboxes. Inr (concat bboxes @ concat bboxes)) \<rparr>"

definition first_four :: "(int, int) transform" where
  "first_four = \<lparr> on_image = Inr, on_array = (\<lambda>bboxes. Inr (take 4 (concat bboxes))) \<rparr>"

definition first_six :: "(int, int) transform" where
  "first_six = \<lparr> on_image = Inr, on_array = (\<lambda>bboxes. Inr (take 6 (concat bboxes))) \<rparr>"

text \<open>
  A store with one image and one annotation whose category id is \<open>2 ^ 63\<close>, the first
  integer that does not fit 64 bits.
\<close>

definition wide_label :: "(int, int) coco" where
  "wide_label = table_coco [1]
     [(9223372036854775808, ''thing'')]
     [(301, 1, \<lparr>bbox = [1, 2, 30, 40], category_id = 9223372036854775808\<rparr>)]"

subsection \<open>Python floats\<close>

text \<open>
  The bbox numbers of a COCO file are mostly Python floats, that is IEEE 754 binary64
  numbers. \<open>Double m e\<close> is the number \<open>m * 2 ^ e\<close>, kept with \<open>m\<close> odd (or with
  \<open>m = 0\<close> and \<open>e = 0\<close>), so that two values are equal exactly when the numbers are.
  \<^verbatim>\<open>+\<close> and \<^verbatim>\<open>-\<close> on floats return the exact result rounded to 53 significant bits, to
  the nearest value and to the even one on a tie. The exponent range of binary64 is not
  modelled (no overflow to infinity, no subnormal numbers): the model is that of
  Python's floats wherever the results stay in the normal range, as pixel coordinates do.
\<close>

datatype double = Double int int

text \<open>\<^verbatim>\<open>int.bit_length\<close>: the number of bits of a positive integer.\<close>

function bit_length :: "int \<Rightarrow> nat" where
  "bit_length n = (if n \<le> 0 then 0 else Suc (bit_length (n div 2)))"
  by pat_completeness auto
termination
  by (relation "measure nat") auto

function normal :: "int \<Rightarrow> int \<Rightarrow> double" where
  "normal m e =
     (if m = 0 then Double 0 0
      else if even m then normal (m div 2) (e + 1)
      else Double m e)"
  by pat_completeness auto
termination
  by (relation "measure (\<lambda>(m, e). nat \<bar>m\<bar>)") auto

text \<open>
  The number \<open>m * 2 ^ e\<close> rounded to 53 significant bits: \<open>s\<close> bits are dropped, \<open>r\<close> is
  their value and \<open>q\<close> what is left; the result is rounded up when \<open>r\<close> is more than half
  a unit of \<open>q\<close>, or exactly half a unit and \<open>q\<close> is odd.
\<close>

definition round53 :: "int \<Rightarrow> int \<Rightarrow> double" where
  "round53 m e =
     (let a = \<bar>m\<bar>;
          s = bit_length a - 53;
          q = a div 2 ^ s;
          r = a mod 2 ^ s;
          q' = (if 2 ^ s < 2 * r \<or> (2 * r = 2 ^ s \<and> odd q) then q + 1 else q)
      in normal (sgn m * q') (e + int s))"

fun exponent :: "double \<Rightarrow> int" where
  "exponent (Double m e) = e"

text \<open>The integer \<open>n\<close> with \<open>n * 2 ^ e0\<close> the value of the float, for \<open>e0\<close> at most its exponent.\<close>

fun scaled :: "double \<Rightarrow> int \<Rightarrow> int" where
  "scaled (Double m e) e0 = m * 2 ^ nat (e - e0)"

instantiation double :: "{one, plus, minus, ord}"
begin

definition one_double :: double where
  "one_double = Double 1 0"

definition plus_double :: "double \<Rightarrow> double \<Rightarrow> double" where
  "plus_double x y =
     (let e0 = min (exponent x) (exponent y) in round53 (scaled x e0 + scaled y e0) e0)"

definition minus_double :: "double \<Rightarrow> double \<Rightarrow> double" where
  "minus_double x y =
     (let e0 = min (exponent x) (exponent y) in round53 (scaled x e0 - scaled y e0) e0)"

definition less_eq_double :: "double \<Rightarrow> double \<Rightarrow> bool" where
  "less_eq_double x y =
     (let e0 = min (exponent x) (exponent y) in scaled x e0 \<le> scaled y e0)"

definition less_double :: "double \<Rightarrow> double \<Rightarrow> bool" where
  "less_double x y =
     (let e0 = min (exponent x) (exponent y) in scaled x e0 < scaled y e0)"

instance ..

end

text \<open>
  The scenario of section 8 of the specification, with float coordinates: image 1 has a
  person with bbox \<^verbatim>\<open>[10, 10, 50, 80]\<close>, image 2 has no annotation, image 3 has a dog
  with bbox \<^verbatim>\<open>[0, 0, 0.5, 5]\<close>.
\<close>

definition scenario :: "(double, int) coco" where
  "scenario = table_coco [1, 2, 3]
     [(1, ''person''), (18, ''dog'')]
     [(201, 1, \<lparr>bbox = [Double 5 1, Double 5 1, Double 25 1, Double 5 4], category_id = 1\<rparr>),
      (202, 3, \<lparr>bbox = [Double 0 0, Double 0 0, Double 1 (- 1), Double 5 0],
                 category_id = 18\<rparr>)]"

section \<open>Properties\<close>

subsection \<open>Auxiliary facts: the loops in closed form\<close>

lemma and_then_simps [simp]: "and_then (Inl e) f = Inl e" "and_then (Inr x) f = f x"
  by (simp_all add: and_then_def)

lemma and_then_Inr_iff: "and_then r f = Inr y \<longleftrightarrow> (\<exists>x. r = Inr x \<and> f x = Inr y)"
  by (cases r) simp_all

lemma subscript_out_of_range:
  "int (length xs) \<le> i \<or> i < - int (length xs) \<Longrightarrow> subscript xs i = Inl IndexError"
  by (auto simp: subscript_def)

lemma subscript_negative:
  "- int (length xs) \<le> i \<Longrightarrow> i < 0 \<Longrightarrow> subscript xs i = subscript xs (int (length xs) + i)"
  by (auto simp: subscript_def)

lemma sizes_ok_iff: "sizes_ok vs \<longleftrightarrow> (\<forall>v\<in>set vs. \<not> v \<le> 1)"
  by (induction vs) auto

lemma boxes_ok_iff: "boxes_ok anno \<longleftrightarrow> (\<forall>obj\<in>set anno. sizes_ok (drop 2 (bbox obj)))"
  by (induction anno) auto

lemma boxes_ok_filter: "boxes_ok anno \<Longrightarrow> boxes_ok (filter P anno)"
  by (simp add: boxes_ok_iff)

lemma drop2_of_four: "length b = 4 \<Longrightarrow> drop 2 b = [b ! 2, b ! 3]"
  by (cases b rule: list.exhaust; simp;
      (cases "tl b"; simp; (cases "tl (tl b)"; simp; (cases "tl (tl (tl b))"; simp))))

lemma keep_valid_eq:
  "keep_valid c xs acc = acc @ filter (\<lambda>i. is_valid_data (loadAnns c (getAnnIds c i))) xs"
  by (induction xs arbitrary: acc) (simp_all add: Let_def)

lemma extend_ids_eq: "extend_ids c ks acc = acc @ concat (map (getImgIds c) ks)"
  by (induction ks arbitrary: acc) simp_all

lemma count_list_concat:
  "count_list (concat xss) x = sum_list (map (\<lambda>xs. count_list xs x) xss)"
  by (induction xss) simp_all

lemma corner_box_eq:
  "corner_box b = (if length b < 4 then Inl IndexError else Inr (corners b))"
  by (simp add: corner_box_def subscript_def corners_def)

lemma collect_eq:
  "collect target bs ls =
     (if \<forall>obj\<in>set target. 4 \<le> length (bbox obj)
      then Inr (bs @ map (\<lambda>obj. corners (bbox obj)) target, ls @ map category_id target)
      else Inl IndexError)"
  by (induction target arbitrary: bs ls) (auto simp: corner_box_eq)

lemma length_rows4: "length (rows4 xs) = length xs div 4"
  by (induction xs rule: rows4.induct) simp_all

lemma reshape4_Inr: "reshape4 flat = Inr rows \<longleftrightarrow> length flat mod 4 = 0 \<and> rows = rows4 flat"
  by (auto simp: reshape4_def)

lemma int64_tensor_Inr: "int64_tensor ls = Inr ls' \<Longrightarrow> ls' = ls"
  by (simp add: int64_tensor_def split: if_splits)

lemma myCocolimit_load_target_eq:
  "myCocolimit_load_target d i =
     filter (\<lambda>ann. category_id ann \<in> set (catIds d)) (loadAnns (coco d) (getAnnIds (coco d) i))"
  by (simp add: myCocolimit_load_target_def)

subsection \<open>Auxiliary facts: the index list after construction\<close>

lemma ids_myCocoDetection_init:
  "ids (myCocoDetection_init c tf v sh) =
     (if v then filter (\<lambda>i. is_valid_data (loadAnns c (getAnnIds c i))) (imgs_keys c)
      else imgs_keys c)"
  by (simp add: myCocoDetection_init_def keep_valid_eq)

lemma ids_myCocolimit_init:
  "ids (myCocolimit_init c tf cl v sh) =
     (if v then filter (\<lambda>i. is_valid_data (loadAnns c (getAnnIds c i)))
                 (concat (map (getImgIds c) (getCatIds c cl)))
      else concat (map (getImgIds c) (getCatIds c cl)))"
  by (simp add: myCocolimit_init_def keep_valid_eq extend_ids_eq Let_def)

lemma catIds_myCocolimit_init: "catIds (myCocolimit_init c tf cl v sh) = getCatIds c cl"
  by (simp add: myCocolimit_init_def Let_def)

lemma coco_myCocolimit_init: "coco (myCocolimit_init c tf cl v sh) = c"
  by (simp add: myCocolimit_init_def Let_def)

subsection \<open>Auxiliary facts: what a returned record is made of\<close>

text \<open>
  Every record that \<^verbatim>\<open>__getitem__\<close> returns comes from one image id \<open>idx\<close> of the index
  list, whose annotations all have a bbox of at least four numbers. Without a transform
  (or in show mode) it holds the corner boxes and the category ids of these
  annotations; with a transform it holds the rows of the transformed array.
\<close>

lemma getitem_body_cases:
  assumes "getitem_body f lt d i = Inr r"
  shows "\<exists>idx img. subscript (ids d) i = Inr idx \<and> load_image (coco d) idx = Inr img
           \<and> (\<forall>obj\<in>set (lt idx). 4 \<le> length (bbox obj))
           \<and> ((show_mode d \<or> transform d = None)
                \<and> r = Plain img (map (\<lambda>obj. corners (bbox obj)) (lt idx))
                      (map category_id (lt idx))
              \<or> \<not> show_mode d
                \<and> (\<exists>tf img' flat. transform d = Some tf \<and> on_image tf img = Inr img'
                      \<and> on_array tf (map (\<lambda>obj. corners (bbox obj)) (lt idx)) = Inr flat
                      \<and> length flat mod 4 = 0
                      \<and> r = WithTargets idx img' (map (map f) (rows4 flat))
                                (map category_id (lt idx))))"
proof -
  from assms obtain idx img bl where
    1: "subscript (ids d) i = Inr idx" and 2: "load_image (coco d) idx = Inr img"
    and 3: "collect (lt idx) [] [] = Inr bl"
    and 4: "(case bl of (bboxes, labels) \<Rightarrow>
       if show_mode d then Inr (Plain img bboxes labels)
       else case transform d of
         Some tf \<Rightarrow>
           and_then (on_image tf img) (\<lambda>image'.
           and_then (on_array tf bboxes) (\<lambda>flat.
           and_then (reshape4 flat) (\<lambda>rows.
           and_then (int64_tensor labels) (\<lambda>labels'.
             Inr (WithTargets idx image' (map (map f) rows) labels')))))
       | None \<Rightarrow> Inr (Plain img bboxes labels)) = Inr r"
    unfolding getitem_body_def and_then_Inr_iff by blast
  from 3 have 5: "\<forall>obj\<in>set (lt idx). 4 \<le> length (bbox obj)"
    and 6: "bl = (map (\<lambda>obj. corners (bbox obj)) (lt idx), map category_id (lt idx))"
    by (auto simp: collect_eq split: if_splits)
  show ?thesis
  proof (cases "show_mode d \<or> transform d = None")
    case True
    with 4 6 have "r = Plain img (map (\<lambda>obj. corners (bbox obj)) (lt idx))
        (map category_id (lt idx))"
      by (auto split: if_splits option.splits)
    with 1 2 5 True show ?thesis by blast
  next
    case False
    then obtain tf where tf: "transform d = Some tf" and ns: "\<not> show_mode d" by auto
    with 4 6 obtain img' flat rows labels' where
      "on_image tf img = Inr img'"
      "on_array tf (map (\<lambda>obj. corners (bbox obj)) (lt idx)) = Inr flat"
      "reshape4 flat = Inr rows" "int64_tensor (map category_id (lt idx)) = Inr labels'"
      "r = WithTargets idx img' (map (map f) rows) labels'"
      by (auto simp: and_then_Inr_iff)
    with 1 2 5 tf ns show ?thesis
      by (auto simp: reshape4_Inr dest!: int64_tensor_Inr)
  qed
qed

lemma getitem_body_subscript_fails:
  "subscript (ids d) i = Inl e \<Longrightarrow> getitem_body f lt d i = Inl e"
  by (simp add: getitem_body_def)

lemma getitem_body_out_of_range:
  assumes "int (length (ids d)) \<le> i \<or> i < - int (length (ids d))"
  shows "getitem_body f lt d i = Inl IndexError"
  using assms by (intro getitem_body_subscript_fails subscript_out_of_range)

lemma getitem_body_negative:
  assumes "- int (length (ids d)) \<le> i" "i < 0"
  shows "getitem_body f lt d i = getitem_body f lt d (int (length (ids d)) + i)"
  using subscript_negative [OF assms] by (simp add: getitem_body_def)

lemma getitem_body_record:
  assumes "getitem_body f lt d i = Inr r"
  shows "\<exists>idx. subscript (ids d) i = Inr idx
           \<and> labels_of r = map category_id (lt idx)
           \<and> (show_mode d \<or> transform d = None \<longrightarrow>
                boxes_of r = map (\<lambda>obj. corners (bbox obj)) (lt idx)
                \<and> length (boxes_of r) = length (labels_of r))
           \<and> (\<forall>tf. \<not> show_mode d \<and> transform d = Some tf \<longrightarrow>
                (\<exists>flat. on_array tf (map (\<lambda>obj. corners (bbox obj)) (lt idx)) = Inr flat
                   \<and> length flat mod 4 = 0
                   \<and> boxes_of r = map (map f) (rows4 flat)
                   \<and> length (boxes_of r) = length flat div 4
                   \<and> length flat = 4 * length (boxes_of r)
                   \<and> (length (boxes_of r) = length (labels_of r)
                        \<longleftrightarrow> length flat = 4 * length (lt idx))))"
  using getitem_body_cases [OF assms] by (auto simp: length_rows4)

lemma getitem_body_plain:
  assumes "subscript (ids d) i = Inr idx" "load_image (coco d) idx = Inr img"
    "\<forall>obj\<in>set (lt idx). 4 \<le> length (bbox obj)" "show_mode d \<or> transform d = None"
  shows "getitem_body f lt d i =
           Inr (Plain img (map (\<lambda>obj. corners (bbox obj)) (lt idx)) (map category_id (lt idx)))"
  using assms by (auto simp: getitem_body_def collect_eq)

lemma getitem_body_transformed:
  assumes "subscript (ids d) i = Inr idx" "load_image (coco d) idx = Inr img"
    "\<forall>obj\<in>set (lt idx). 4 \<le> length (bbox obj)" "\<not> show_mode d" "transform d = Some tf"
    "on_image tf img = Inr img'"
    "on_array tf (map (\<lambda>obj. corners (bbox obj)) (lt idx)) = Inr flat"
  shows "getitem_body f lt d i =
           (if length flat mod 4 = 0
            then and_then (int64_tensor (map category_id (lt idx)))
                   (\<lambda>labels. Inr (WithTargets idx img' (map (map f) (rows4 flat)) labels))
            else Inl RuntimeError_shape)"
  using assms by (auto simp: getitem_body_def collect_eq reshape4_def)

lemma demo_detection_plain:
  "myCocoDetection_getitem id (myCocoDetection_init demo None True False) 0
     = Inr (Plain 1 [[10, 10, 60, 90], [5, 5, 25, 25]] [1, 18])"
  by (simp add: myCocoDetection_getitem_def getitem_body_def myCocoDetection_load_target_def
      myCocoDetection_init_def demo_def table_coco_def is_valid_data_def subscript_def
      corner_box_def)

lemma demo_limit_plain:
  "myCocolimit_getitem id (myCocolimit_init demo None [''person'', ''dog''] True False) 0
     = Inr (Plain 1 [[10, 10, 60, 90], [5, 5, 25, 25]] [1, 18])"
  by (simp add: myCocolimit_getitem_def getitem_body_def myCocolimit_load_target_def
      myCocolimit_init_def demo_def table_coco_def is_valid_data_def subscript_def
      corner_box_def)

lemma demo_detection_as_tensor:
  "myCocoDetection_getitem id (myCocoDetection_init demo (Some as_tensor) True False) 0
     = Inr (WithTargets 1 1 [[10, 10, 60, 90], [5, 5, 25, 25]] [1, 18])"
  by (simp add: myCocoDetection_getitem_def getitem_body_def myCocoDetection_load_target_def
      myCocoDetection_init_def demo_def table_coco_def is_valid_data_def subscript_def
      corner_box_def as_tensor_def reshape4_def int64_tensor_def)

subsection \<open>The annotations checked at construction and those used at retrieval\<close>

text \<open>
  Built for the name person alone, the index list of \<open>demo\<close> holds image 1. The
  constructor has checked both annotations of image 1 (lines 101-104 load them with
  \<^verbatim>\<open>getAnnIds\<close> and \<^verbatim>\<open>loadAnns\<close>), while retrieval derives boxes and labels from the
  person annotation only.
\<close>

theorem validity_view_counterexample:
  "ids (myCocolimit_init demo None [''person''] True False) = [1]
   \<and> loadAnns demo (getAnnIds demo 1)
       = [\<lparr>bbox = [10, 10, 50, 80], category_id = 1\<rparr>,
          \<lparr>bbox = [5, 5, 20, 20], category_id = 18\<rparr>]
   \<and> myCocolimit_load_target (myCocolimit_init demo None [''person''] True False) 1
       = [\<lparr>bbox = [10, 10, 50, 80], category_id = 1\<rparr>]"
  by (simp add: myCocolimit_load_target_eq ids_myCocolimit_init catIds_myCocolimit_init
      coco_myCocolimit_init demo_def table_coco_def is_valid_data_def)

text \<open>
  Image 4 of \<open>demo\<close> is a candidate for the name person, and its person annotation is
  valid. The constructor drops it, because the cat of the same image has a degenerate
  box.
\<close>

lemma validity_view_drops_image:
  "ids (myCocolimit_init demo None [''person''] False False) = [1, 4]
   \<and> is_valid_data (myCocolimit_load_target (myCocolimit_init demo None [''person''] True False) 4)
   \<and> \<not> is_valid_data (loadAnns demo (getAnnIds demo 4))
   \<and> ids (myCocolimit_init demo None [''person''] True False) = [1]"
  by (simp add: myCocolimit_load_target_eq ids_myCocolimit_init catIds_myCocolimit_init
      coco_myCocolimit_init demo_def table_coco_def is_valid_data_def)

text \<open>
  Claim C1, as the code has it. In the category-restricted class the validity check of
  the constructor runs on all annotations of an image, of whatever category: the index
  list holds the candidates for which \<open>is_valid_data\<close> accepts that unfiltered
  sequence. Retrieval uses the subsequence of the same annotations whose category id
  is one of the resolved ids. So for every image id of the index list, no annotation
  that retrieval uses has a width or a height \<open>\<le> 1\<close>.
\<close>

theorem retrieval_filters_the_checked_annotations:
  fixes c :: "('a::{one,ord}, 'img) coco"
  shows "ids (myCocolimit_init c tf cl True sh)
           = filter (\<lambda>i. is_valid_data (loadAnns c (getAnnIds c i)))
               (ids (myCocolimit_init c tf cl False sh))
         \<and> myCocolimit_load_target (myCocolimit_init c tf cl True sh) i
           = filter (\<lambda>ann. category_id ann \<in> set (getCatIds c cl))
               (loadAnns c (getAnnIds c i))
         \<and> (i \<in> set (ids (myCocolimit_init c tf cl True sh)) \<longrightarrow>
              boxes_ok (myCocolimit_load_target (myCocolimit_init c tf cl True sh) i))"
  by (auto simp: ids_myCocolimit_init myCocolimit_load_target_eq
      catIds_myCocolimit_init coco_myCocolimit_init is_valid_data_def boxes_ok_filter
      split: if_splits)

theorem retrieval_filters_the_checked_annotations_witness:
  "1 \<in> set (ids (myCocolimit_init demo None [''person''] True False))
   \<and> boxes_ok (myCocolimit_load_target (myCocolimit_init demo None [''person''] True False) 1)
   \<and> myCocolimit_load_target (myCocolimit_init demo None [''person''] True False) 1
       = filter (\<lambda>ann. category_id ann \<in> set (getCatIds demo [''person'']))
           (loadAnns demo (getAnnIds demo 1))"
proof -
  have h: "1 \<in> set (ids (myCocolimit_init demo None [''person''] True False))"
    by (simp add: ids_myCocolimit_init demo_def table_coco_def is_valid_data_def)
  note t = retrieval_filters_the_checked_annotations [of demo None "[''person'']" False 1]
  from t h show ?thesis by blast
qed

text \<open>
  The images kept are valid for retrieval too, over a store that lists for a category
  only images with an annotation of that category: the filtered annotations of a kept
  image are not empty, and they passed the check among the others.
\<close>

lemma kept_images_have_valid_targets:
  fixes c :: "('a::{one,ord}, 'img) coco"
  assumes "\<forall>k\<in>set (getCatIds c cl). \<forall>i\<in>set (getImgIds c k).
             k \<in> category_id ` set (loadAnns c (getAnnIds c i))"
    and "i \<in> set (ids (myCocolimit_init c tf cl True sh))"
  shows "is_valid_data (myCocolimit_load_target (myCocolimit_init c tf cl True sh) i)"
proof -
  let ?raw = "loadAnns c (getAnnIds c i)"
  let ?new = "filter (\<lambda>ann. category_id ann \<in> set (getCatIds c cl)) ?raw"
  from assms(2) obtain k where k: "k \<in> set (getCatIds c cl)" "i \<in> set (getImgIds c k)"
    and v: "is_valid_data ?raw"
    by (auto simp: ids_myCocolimit_init)
  from assms(1) k have "k \<in> category_id ` set ?raw" by blast
  then obtain ann where "ann \<in> set ?raw" "category_id ann = k" by (auto simp: image_iff)
  with k(1) have "ann \<in> set ?new" by simp
  then have "?new \<noteq> []" by (metis empty_iff list.set(1))
  moreover from v have "boxes_ok ?new"
    by (simp add: is_valid_data_def boxes_ok_filter split: if_splits)
  ultimately have "is_valid_data ?new" by (simp add: is_valid_data_def)
  then show ?thesis
    by (simp add: myCocolimit_load_target_eq catIds_myCocolimit_init coco_myCocolimit_init)
qed

subsection \<open>The validity predicate\<close>

text \<open>For a bbox of any length, the predicate reads every number from the third on.\<close>

lemma is_valid_data_iff:
  "is_valid_data anno \<longleftrightarrow>
     anno \<noteq> [] \<and> (\<forall>obj\<in>set anno. \<forall>v\<in>set (drop 2 (bbox obj)). \<not> v \<le> 1)"
  by (simp add: is_valid_data_def boxes_ok_iff sizes_ok_iff)

text \<open>
  Claim C2. For annotations whose bbox has four numbers, \<open>is_valid_data\<close> is false on
  the empty sequence, false on every sequence in which some annotation has a width (the
  third number) or a height (the fourth number) \<open>\<le> 1\<close>, whatever the other annotations
  are, and true on every other sequence.
\<close>

theorem is_valid_data_spec:
  fixes anno :: "('a::{one,ord}) annotation list"
  assumes "\<forall>obj\<in>set anno. length (bbox obj) = 4"
  shows "is_valid_data anno \<longleftrightarrow>
           anno \<noteq> [] \<and> \<not> (\<exists>obj\<in>set anno. bbox obj ! 2 \<le> 1 \<or> bbox obj ! 3 \<le> 1)"
  using assms by (auto simp: is_valid_data_def boxes_ok_iff sizes_ok_iff drop2_of_four)

theorem is_valid_data_spec_witness:
  "is_valid_data [\<lparr>bbox = [10, 10, 50, 80 :: int], category_id = 1\<rparr>]
   \<and> \<not> is_valid_data [\<lparr>bbox = [10, 10, 50, 80 :: int], category_id = 1\<rparr>,
                        \<lparr>bbox = [0, 0, 1, 5], category_id = 18\<rparr>]
   \<and> \<not> is_valid_data ([] :: int annotation list)"
  using is_valid_data_spec [of "[\<lparr>bbox = [10, 10, 50, 80 :: int], category_id = 1\<rparr>]"]
    is_valid_data_spec [of "[\<lparr>bbox = [10, 10, 50, 80 :: int], category_id = 1\<rparr>,
                              \<lparr>bbox = [0, 0, 1, 5], category_id = 18\<rparr>]"]
    is_valid_data_spec [of "[] :: int annotation list"]
  by simp

subsection \<open>The corner box\<close>

text \<open>
  The float model on known sums: \<open>1 + 1 = 2\<close>; \<open>2 ^ 53 + 1\<close> is a tie and rounds to the
  even \<open>2 ^ 53\<close>; \<open>2 ^ 53 + 3\<close> is a tie and rounds to \<open>2 ^ 53 + 4\<close>; \<open>0.5 \<le> 1\<close>; and
  \<^verbatim>\<open>0.1 + 0.2\<close> is \<^verbatim>\<open>0.30000000000000004\<close>, which is not the float \<^verbatim>\<open>0.3\<close>.
\<close>

lemma double_examples:
  "Double 1 0 + Double 1 0 = Double 1 1"
  "Double 1 53 + Double 1 0 = Double 1 53"
  "Double 1 53 + Double 3 0 = Double 2251799813685249 2"
  "Double 1 (- 1) \<le> 1"
  "Double 3602879701896397 (- 55) + Double 3602879701896397 (- 54)
     = Double 1351079888211149 (- 52)"
  "Double 1351079888211149 (- 52) \<noteq> Double 5404319552844595 (- 54)"
  by code_simp+

text \<open>
  The bbox \<^verbatim>\<open>[0.1, 0.1, 4.0, 4.0]\<close>, with floats as the JSON reader returns them: \<^verbatim>\<open>0.1\<close>
  is the float \<open>3602879701896397 * 2 ^ -55\<close> and \<^verbatim>\<open>4.0\<close> is \<open>1 * 2 ^ 2\<close>. Width and height
  are above 1. The corner \<^verbatim>\<open>x2 = 0.1 + 4.0\<close> is the float \<^verbatim>\<open>4.1\<close>, and \<^verbatim>\<open>x2 - x1\<close> is
  \<^verbatim>\<open>3.9999999999999996\<close>, not the width.
\<close>

theorem round_trip_counterexample:
  "corner_box [Double 3602879701896397 (- 55), Double 3602879701896397 (- 55),
               Double 1 2, Double 1 2]
     = Inr [Double 3602879701896397 (- 55), Double 3602879701896397 (- 55),
            Double 2308094809027379 (- 49), Double 2308094809027379 (- 49)]
   \<and> 1 < Double 1 2
   \<and> Double 2308094809027379 (- 49) - Double 3602879701896397 (- 55)
       = Double 9007199254740991 (- 51)
   \<and> Double 9007199254740991 (- 51) \<noteq> Double 1 2"
  by code_simp

text \<open>
  The same on a box as COCO files have them, \<^verbatim>\<open>[473.07, 395.93, 38.65, 28.67]\<close>:
  \<^verbatim>\<open>x2 - x1\<close> is \<^verbatim>\<open>38.64999999999998\<close> and \<^verbatim>\<open>y2 - y1\<close> is \<^verbatim>\<open>28.670000000000016\<close>.
\<close>

lemma coco_box_round_trip:
  "corner_box [Double 8322335452031877 (- 44), Double 6965274220565627 (- 44),
               Double 5439503924933427 (- 47), Double 2017471895573627 (- 46)]
     = Inr [Double 8322335452031877 (- 44), Double 6965274220565627 (- 44),
            Double 9002273442648555 (- 44), Double 3734821097229517 (- 43)]
   \<and> Double 9002273442648555 (- 44) - Double 8322335452031877 (- 44)
       = Double 339968995308339 (- 43)
   \<and> Double 339968995308339 (- 43) \<noteq> Double 5439503924933427 (- 47)
   \<and> Double 3734821097229517 (- 43) - Double 6965274220565627 (- 44)
       = Double 504367973893407 (- 44)
   \<and> Double 504367973893407 (- 44) \<noteq> Double 2017471895573627 (- 46)"
  by code_simp

text \<open>
  Claim C3, as the code has it. Retrieval converts every annotation with bbox
  \<open>(x, y, w, h)\<close> to the corner box \<open>(x, y, x + w, y + h)\<close>, whatever the type of the
  numbers, floats included. When the numbers are added and subtracted exactly, as
  Python's ints are, the corner box satisfies \<open>x2 - x1 = w\<close> and \<open>y2 - y1 = h\<close>. (For
  floats the sum and the difference are rounded, and the two equations can fail, as the
  two boxes above show.)
\<close>

theorem corner_box_round_trip:
  fixes x y w h :: "'a::plus" and x' y' w' h' :: "'b::ab_group_add"
  shows "corner_box [x, y, w, h] = Inr [x, y, x + w, y + h]
         \<and> collect [\<lparr>bbox = [x, y, w, h], category_id = k\<rparr>] [] []
             = Inr ([[x, y, x + w, y + h]], [k])
         \<and> (\<exists>x1 y1 x2 y2. corner_box [x', y', w', h'] = Inr [x1, y1, x2, y2]
               \<and> x1 = x' \<and> y1 = y' \<and> x2 = x' + w' \<and> y2 = y' + h'
               \<and> x2 - x1 = w' \<and> y2 - y1 = h'
               \<and> collect [\<lparr>bbox = [x', y', w', h'], category_id = k\<rparr>] [] []
                   = Inr ([[x1, y1, x2, y2]], [k]))"
  by (simp add: corner_box_eq corners_def)

theorem corner_box_round_trip_witness:
  "corner_box [Double 3602879701896397 (- 55), Double 3602879701896397 (- 55),
               Double 1 2, Double 1 2]
     = Inr [Double 3602879701896397 (- 55), Double 3602879701896397 (- 55),
            Double 2308094809027379 (- 49), Double 2308094809027379 (- 49)]
   \<and> corner_box [10, 10, 50, 80 :: int] = Inr [10, 10, 60, 90]
   \<and> (60::int) - 10 = 50 \<and> (90::int) - 10 = 80"
proof -
  have e: "Double 3602879701896397 (- 55) + Double 1 2 = Double 2308094809027379 (- 49)"
    by code_simp
  from corner_box_round_trip [of "Double 3602879701896397 (- 55)"
      "Double 3602879701896397 (- 55)" "Double 1 2" "Double 1 2" 1 10 10 50 "80::int"] e
  show ?thesis by simp
qed

subsection \<open>Boxes and labels of a record\<close>

text \<open>
  With the transform \<open>repeat_twice\<close>, the record of image 1 of \<open>demo\<close> has four boxes
  and two labels.
\<close>

theorem boxes_labels_counterexample:
  "myCocoDetection_getitem id (myCocoDetection_init demo (Some repeat_twice) True False) 0
     = Inr (WithTargets 1 1
         [[10, 10, 60, 90], [5, 5, 25, 25], [10, 10, 60, 90], [5, 5, 25, 25]] [1, 18])"
  by (simp add: myCocoDetection_getitem_def getitem_body_def myCocoDetection_load_target_def
      myCocoDetection_init_def demo_def table_coco_def is_valid_data_def subscript_def
      corner_box_def repeat_twice_def reshape4_def int64_tensor_def)

text \<open>
  Claim C4, as the code has it. Let \<^verbatim>\<open>__getitem__\<close> of either class return a record at
  index \<open>i\<close>, and let the target be the annotations that \<^verbatim>\<open>_load_target\<close> gives for the
  image id \<open>ids[i]\<close> (filtered by category in the restricted class). The labels of the
  record are the category ids of the target, in order. When no transform is applied
  (show mode, or no transform configured), the boxes are the corner boxes of the target
  in the same order, so that box \<open>j\<close> and label \<open>j\<close> come from the same annotation and
  there are as many boxes as labels, one per annotation. When a transform is applied,
  the number of values it returns for the array of corner boxes is a multiple of 4, the
  boxes are the rows of four of these values, and four times the number of boxes is the
  number of values: there are as many boxes as labels if and only if the transform
  returns four values per annotation.
\<close>

theorem record_boxes_and_labels:
  fixes d :: "('a::plus, 'img) myCocoDetection" and d' :: "('a, 'img) myCocolimit"
  shows
    "(myCocoDetection_getitem f d i = Inr r \<longrightarrow>
       (\<exists>idx. subscript (ids d) i = Inr idx
          \<and> labels_of r = map category_id (myCocoDetection_load_target d idx)
          \<and> (show_mode d \<or> transform d = None \<longrightarrow>
               boxes_of r = map (\<lambda>obj. corners (bbox obj)) (myCocoDetection_load_target d idx)
               \<and> length (boxes_of r) = length (labels_of r))
          \<and> (\<forall>tf. \<not> show_mode d \<and> transform d = Some tf \<longrightarrow>
               (\<exists>flat. on_array tf (map (\<lambda>obj. corners (bbox obj))
                                      (myCocoDetection_load_target d idx)) = Inr flat
                  \<and> length flat mod 4 = 0
                  \<and> boxes_of r = map (map f) (rows4 flat)
                  \<and> length (boxes_of r) = length flat div 4
                  \<and> length flat = 4 * length (boxes_of r)
                  \<and> (length (boxes_of r) = length (labels_of r)
                       \<longleftrightarrow> length flat = 4 * length (myCocoDetection_load_target d idx))))))
   \<and> (myCocolimit_getitem f d' i' = Inr r' \<longrightarrow>
       (\<exists>idx. subscript (ids d') i' = Inr idx
          \<and> labels_of r' = map category_id (myCocolimit_load_target d' idx)
          \<and> (show_mode d' \<or> transform d' = None \<longrightarrow>
               boxes_of r' = map (\<lambda>obj. corners (bbox obj)) (myCocolimit_load_target d' idx)
               \<and> length (boxes_of r') = length (labels_of r'))
          \<and> (\<forall>tf. \<not> show_mode d' \<and> transform d' = Some tf \<longrightarrow>
               (\<exists>flat. on_array tf (map (\<lambda>obj. corners (bbox obj))
                                      (myCocolimit_load_target d' idx)) = Inr flat
                  \<and> length flat mod 4 = 0
                  \<and> boxes_of r' = map (map f) (rows4 flat)
                  \<and> length (boxes_of r') = length flat div 4
                  \<and> length flat = 4 * length (boxes_of r')
                  \<and> (length (boxes_of r') = length (labels_of r')
                       \<longleftrightarrow> length flat = 4 * length (myCocolimit_load_target d' idx))))))"
  unfolding myCocoDetection_getitem_def myCocolimit_getitem_def
  by (intro conjI impI; erule getitem_body_record)

theorem record_boxes_and_labels_witness:
  "myCocoDetection_getitem id (myCocoDetection_init demo (Some as_tensor) True False) 0
     = Inr (WithTargets 1 1 [[10, 10, 60, 90], [5, 5, 25, 25]] [1, 18])
   \<and> transform (myCocoDetection_init demo (Some as_tensor) True False) = Some as_tensor
   \<and> \<not> show_mode (myCocoDetection_init demo (Some as_tensor) True False)
   \<and> subscript (ids (myCocoDetection_init demo (Some as_tensor) True False)) 0 = Inr 1
   \<and> on_array as_tensor (map (\<lambda>obj. corners (bbox obj))
        (myCocoDetection_load_target (myCocoDetection_init demo (Some as_tensor) True False) 1))
       = Inr [10, 10, 60, 90, 5, 5, 25, 25]
   \<and> length (boxes_of (WithTargets (1::int) (1::int) [[10, 10, 60, 90], [5, 5, 25, 25 :: int]]
        [1, 18]))
     = length (labels_of (WithTargets (1::int) (1::int) [[10, 10, 60, 90], [5, 5, 25, 25 :: int]]
        [1, 18]))
   \<and> length [10, 10, 60, 90, 5, 5, 25, 25 :: int]
     = 4 * length (myCocoDetection_load_target
         (myCocoDetection_init demo (Some as_tensor) True False) 1)
   \<and> myCocolimit_getitem id (myCocolimit_init demo None [''person'', ''dog''] True False) 0
     = Inr (Plain 1 [[10, 10, 60, 90], [5, 5, 25, 25]] [1, 18])
   \<and> transform (myCocolimit_init demo None [''person'', ''dog''] True False) = None
   \<and> length (boxes_of (Plain (1::int) [[10, 10, 60, 90], [5, 5, 25, 25 :: int]] [1, 18]))
     = length (labels_of (Plain (1::int) [[10, 10, 60, 90], [5, 5, 25, 25 :: int]] [1, 18]))"
proof -
  let ?d = "myCocoDetection_init demo (Some as_tensor) True False"
  let ?d' = "myCocolimit_init demo None [''person'', ''dog''] True False"
  note t = record_boxes_and_labels [of id ?d 0
      "WithTargets 1 1 [[10, 10, 60, 90], [5, 5, 25, 25]] [1, 18]" ?d' 0
      "Plain 1 [[10, 10, 60, 90], [5, 5, 25, 25]] [1, 18]"]
  have a: "transform ?d = Some as_tensor" "\<not> show_mode ?d" "subscript (ids ?d) 0 = Inr 1"
    "on_array as_tensor (map (\<lambda>obj. corners (bbox obj)) (myCocoDetection_load_target ?d 1))
       = Inr [10, 10, 60, 90, 5, 5, 25, 25]"
    "length (myCocoDetection_load_target ?d 1) = 2"
    by (simp_all add: myCocoDetection_init_def myCocoDetection_load_target_def demo_def
        table_coco_def is_valid_data_def subscript_def as_tensor_def corners_def)
  have b: "transform ?d' = None"
    by (simp add: myCocolimit_init_def Let_def)
  from t demo_detection_as_tensor demo_limit_plain a b show ?thesis by simp
qed

subsection \<open>Category names that resolve to nothing\<close>

text \<open>
  No category of \<open>demo\<close> is named nonexistent_category. The constructor returns a
  dataset all the same, with an empty index list.
\<close>

theorem unknown_category_counterexample:
  "myCocolimit_init demo None [''nonexistent_category''] True False =
     \<lparr> coco = demo, ids = [], transform = None, show_mode = False,
       class_list = [''nonexistent_category''], catIds = [] \<rparr>"
  by (simp add: myCocolimit_init_def) (simp add: demo_def table_coco_def)

text \<open>
  Claim C5, as the code has it. When the store resolves the given names to no category
  id, the constructor of the category-restricted class raises nothing: it returns a
  dataset whose index list is empty, so that \<^verbatim>\<open>__getitem__\<close> raises IndexError at
  every index.
\<close>

theorem unknown_categories_give_empty_dataset:
  assumes "getCatIds c cl = []"
  shows "myCocolimit_init c tf cl v sh =
           \<lparr> coco = c, ids = [], transform = tf, show_mode = sh, class_list = cl, catIds = [] \<rparr>
         \<and> myCocolimit_getitem f (myCocolimit_init c tf cl v sh) i = Inl IndexError"
proof -
  have "subscript (ids (myCocolimit_init c tf cl v sh)) i = Inl IndexError"
    using assms by (simp add: ids_myCocolimit_init subscript_def)
  then have "myCocolimit_getitem f (myCocolimit_init c tf cl v sh) i = Inl IndexError"
    unfolding myCocolimit_getitem_def by (rule getitem_body_subscript_fails)
  moreover have "myCocolimit_init c tf cl v sh =
      \<lparr> coco = c, ids = [], transform = tf, show_mode = sh, class_list = cl, catIds = [] \<rparr>"
    using assms by (simp add: myCocolimit_init_def)
  ultimately show ?thesis by simp
qed

theorem unknown_categories_give_empty_dataset_witness:
  "getCatIds demo [''nonexistent_category''] = []
   \<and> ids (myCocolimit_init demo None [''nonexistent_category''] True False) = []
   \<and> myCocolimit_getitem id (myCocolimit_init demo None [''nonexistent_category''] True False) 0
       = Inl IndexError"
proof -
  have h: "getCatIds demo [''nonexistent_category''] = []"
    by (simp add: demo_def table_coco_def)
  note t = unknown_categories_give_empty_dataset [OF h, of None True False id 0]
  from t [THEN conjunct1]
  have "ids (myCocolimit_init demo None [''nonexistent_category''] True False) = []"
    by simp
  with h t [THEN conjunct2] show ?thesis by simp
qed

subsection \<open>The index list of the category-restricted class\<close>

text \<open>
  In \<open>demo\<close>, image 1 has a person and a dog. Built for the names person and dog, the
  index list holds image 1 twice: lines 94-96 append the image ids of each category and
  remove nothing.
\<close>

theorem index_list_counterexample:
  "count_list (ids (myCocolimit_init demo None [''person'', ''dog''] False False)) 1 = 2"
  by (simp add: ids_myCocolimit_init demo_def table_coco_def)

text \<open>
  Claim C6, as the code has it. When category names are given, the index list before
  validation is the concatenation, in the order of the resolved category ids, of the
  image-id lists that the store returns for each of them. Its elements are the union of
  these lists, and an image id occurs in it as often as it occurs in these lists
  together: duplicates are kept.
\<close>

theorem index_list_concatenation:
  "ids (myCocolimit_init c tf cl False sh) = concat (map (getImgIds c) (getCatIds c cl))
   \<and> set (ids (myCocolimit_init c tf cl False sh))
       = (\<Union>k\<in>set (getCatIds c cl). set (getImgIds c k))
   \<and> count_list (ids (myCocolimit_init c tf cl False sh)) i
       = sum_list (map (\<lambda>k. count_list (getImgIds c k) i) (getCatIds c cl))"
  by (simp add: ids_myCocolimit_init count_list_concat comp_def)

theorem index_list_concatenation_witness:
  "ids (myCocolimit_init demo None [''person'', ''dog''] False False)
     = concat (map (getImgIds demo) [1, 18])
   \<and> getImgIds demo 1 = [1, 4] \<and> getImgIds demo 18 = [1, 3]
   \<and> getCatIds demo [''person'', ''dog''] = [1, 18]"
  using index_list_concatenation [of demo None "[''person'', ''dog'']" False]
  by (simp add: demo_def table_coco_def)

subsection \<open>The restricted class against the unrestricted one\<close>

text \<open>
  Claim C7. Over a store whose image-id lists per category name only images of its
  image table, the image ids of a category-restricted index list all occur in the index
  list of the unrestricted class built over the same store with the same validation
  flag; and every label of a record that the restricted \<^verbatim>\<open>__getitem__\<close> returns is one of
  the category ids resolved at construction.
\<close>

theorem restricted_subset_and_labels:
  assumes "\<forall>k\<in>set (getCatIds c cl). set (getImgIds c k) \<subseteq> set (imgs_keys c)"
  shows "set (ids (myCocolimit_init c tf cl v sh)) \<subseteq> set (ids (myCocoDetection_init c tf' v sh'))
         \<and> (myCocolimit_getitem f (myCocolimit_init c tf cl v sh) i = Inr r \<longrightarrow>
              set (labels_of r) \<subseteq> set (getCatIds c cl))"
proof -
  have "set (ids (myCocolimit_init c tf cl v sh)) \<subseteq> set (ids (myCocoDetection_init c tf' v sh'))"
    using assms by (auto simp: ids_myCocolimit_init ids_myCocoDetection_init)
  moreover have "set (labels_of r) \<subseteq> set (getCatIds c cl)"
    if "myCocolimit_getitem f (myCocolimit_init c tf cl v sh) i = Inr r"
  proof -
    from that obtain idx where
      "labels_of r = map category_id (myCocolimit_load_target (myCocolimit_init c tf cl v sh) idx)"
      unfolding myCocolimit_getitem_def by (auto dest!: getitem_body_cases)
    then show ?thesis
      by (auto simp: myCocolimit_load_target_eq catIds_myCocolimit_init)
  qed
  ultimately show ?thesis by blast
qed

theorem restricted_subset_and_labels_witness:
  "set (getImgIds demo 1) \<subseteq> set (imgs_keys demo) \<and> set (getImgIds demo 18) \<subseteq> set (imgs_keys demo)
   \<and> getCatIds demo [''person'', ''dog''] = [1, 18]
   \<and> set (ids (myCocolimit_init demo None [''person'', ''dog''] True False))
       \<subseteq> set (ids (myCocoDetection_init demo None True False))
   \<and> myCocolimit_getitem id (myCocolimit_init demo None [''person'', ''dog''] True False) 0
       = Inr (Plain 1 [[10, 10, 60, 90], [5, 5, 25, 25]] [1, 18])
   \<and> set (labels_of (Plain (1::int) [[10, 10, 60, 90], [5, 5, 25, 25 :: int]] [1, 18]))
       \<subseteq> set (getCatIds demo [''person'', ''dog''])"
proof -
  have cats: "getCatIds demo [''person'', ''dog''] = [1, 18]"
    by (simp add: demo_def table_coco_def)
  have sub: "set (getImgIds demo 1) \<subseteq> set (imgs_keys demo)"
    "set (getImgIds demo 18) \<subseteq> set (imgs_keys demo)"
    by (simp_all add: demo_def table_coco_def)
  have h: "\<forall>k\<in>set (getCatIds demo [''person'', ''dog'']).
      set (getImgIds demo k) \<subseteq> set (imgs_keys demo)"
    using sub by (simp add: cats)
  have g: "myCocolimit_getitem id (myCocolimit_init demo None [''person'', ''dog''] True False) 0
       = Inr (Plain 1 [[10, 10, 60, 90], [5, 5, 25, 25]] [1, 18])"
    by (simp add: myCocolimit_getitem_def getitem_body_def myCocolimit_load_target_def
        myCocolimit_init_def demo_def table_coco_def is_valid_data_def subscript_def
        corner_box_def)
  note t = restricted_subset_and_labels [OF h, of None True False None False id 0
      "Plain 1 [[10, 10, 60, 90], [5, 5, 25, 25]] [1, 18]"]
  from t g cats sub show ?thesis by blast
qed

subsection \<open>The transform branch\<close>

text \<open>
  With the transform \<open>first_four\<close>, the record of image 1 of \<open>demo\<close> has one box and two
  labels: the transform has changed the number of boxes, and \<^verbatim>\<open>__getitem__\<close> returns.
\<close>

theorem transform_error_counterexample:
  "myCocoDetection_getitem id (myCocoDetection_init demo (Some first_four) True False) 0
     = Inr (WithTargets 1 1 [[10, 10, 60, 90]] [1, 18])"
  by (simp add: myCocoDetection_getitem_def getitem_body_def myCocoDetection_load_target_def
      myCocoDetection_init_def demo_def table_coco_def is_valid_data_def subscript_def
      corner_box_def first_four_def reshape4_def int64_tensor_def)

text \<open>
  Claim C8, as the code has it. In the transform branch of \<^verbatim>\<open>__getitem__\<close> (lines 63-73
  and 139-149) nothing compares the number of boxes with the number of labels. Once the
  transform has returned for the image and for the array of corner boxes, there are
  three outcomes. When the number of values returned for the array is not a multiple of
  4, \<^verbatim>\<open>reshape(-1, 4)\<close> raises RuntimeError. When it is a multiple of 4 and a category
  id of the target does not fit 64 bits, \<^verbatim>\<open>torch.tensor(labels)\<close> raises RuntimeError.
  In every other case \<^verbatim>\<open>__getitem__\<close> returns: the rows of four are the boxes of the
  record, however many they are, and the labels are those of the annotations.
\<close>

theorem reshape_is_the_only_check:
  fixes d :: "('a::plus, 'img) myCocoDetection" and d' :: "('a, 'img) myCocolimit"
  shows
    "(\<not> show_mode d \<and> transform d = Some tf \<and> subscript (ids d) i = Inr idx
        \<and> load_image (coco d) idx = Inr img
        \<and> (\<forall>obj\<in>set (myCocoDetection_load_target d idx). 4 \<le> length (bbox obj))
        \<and> on_image tf img = Inr img'
        \<and> on_array tf (map (\<lambda>obj. corners (bbox obj)) (myCocoDetection_load_target d idx))
            = Inr flat
      \<longrightarrow> myCocoDetection_getitem f d i =
            (if length flat mod 4 = 0
             then and_then (int64_tensor (map category_id (myCocoDetection_load_target d idx)))
                    (\<lambda>labels. Inr (WithTargets idx img' (map (map f) (rows4 flat)) labels))
             else Inl RuntimeError_shape))
   \<and> (\<not> show_mode d' \<and> transform d' = Some tf \<and> subscript (ids d') i = Inr idx
        \<and> load_image (coco d') idx = Inr img
        \<and> (\<forall>obj\<in>set (myCocolimit_load_target d' idx). 4 \<le> length (bbox obj))
        \<and> on_image tf img = Inr img'
        \<and> on_array tf (map (\<lambda>obj. corners (bbox obj)) (myCocolimit_load_target d' idx))
            = Inr flat
      \<longrightarrow> myCocolimit_getitem f d' i =
            (if length flat mod 4 = 0
             then and_then (int64_tensor (map category_id (myCocolimit_load_target d' idx)))
                    (\<lambda>labels. Inr (WithTargets idx img' (map (map f) (rows4 flat)) labels))
             else Inl RuntimeError_shape))"
  unfolding myCocoDetection_getitem_def myCocolimit_getitem_def
  by (intro conjI impI; elim conjE; rule getitem_body_transformed; assumption)

theorem reshape_is_the_only_check_witness:
  "myCocoDetection_getitem id (myCocoDetection_init demo (Some first_six) True False) 0
     = Inl RuntimeError_shape
   \<and> myCocolimit_getitem id
       (myCocolimit_init demo (Some as_tensor) [''person''] True False) 0
     = Inr (WithTargets 1 1 [[10, 10, 60, 90]] [1])
   \<and> myCocoDetection_getitem id (myCocoDetection_init wide_label (Some as_tensor) True False) 0
     = Inl RuntimeError_overflow"
proof -
  let ?e = "myCocoDetection_init wide_label (Some as_tensor) True False"
  have o: "\<not> show_mode ?e \<and> transform ?e = Some as_tensor \<and> subscript (ids ?e) 0 = Inr 1
      \<and> load_image (coco ?e) 1 = Inr 1
      \<and> (\<forall>obj\<in>set (myCocoDetection_load_target ?e 1). 4 \<le> length (bbox obj))
      \<and> on_image as_tensor 1 = Inr 1
      \<and> on_array as_tensor (map (\<lambda>obj. corners (bbox obj)) (myCocoDetection_load_target ?e 1))
          = Inr [1, 2, 31, 42]"
    by (simp add: myCocoDetection_init_def myCocoDetection_load_target_def wide_label_def
        table_coco_def is_valid_data_def subscript_def as_tensor_def corners_def)
  have p: "myCocoDetection_load_target ?e 1
      = [\<lparr>bbox = [1, 2, 30, 40], category_id = 9223372036854775808\<rparr>]"
    by (simp add: myCocoDetection_init_def myCocoDetection_load_target_def wide_label_def
        table_coco_def)
  from reshape_is_the_only_check [of ?e as_tensor 0 1 1 1 "[1, 2, 31, 42]" id,
      THEN conjunct1] o
  have 3: "myCocoDetection_getitem id ?e 0 = Inl RuntimeError_overflow"
    by (simp add: p int64_tensor_def)
  let ?d = "myCocoDetection_init demo (Some first_six) True False"
  let ?d' = "myCocolimit_init demo (Some as_tensor) [''person''] True False"
  have a: "\<not> show_mode ?d \<and> transform ?d = Some first_six \<and> subscript (ids ?d) 0 = Inr 1
      \<and> load_image (coco ?d) 1 = Inr 1
      \<and> (\<forall>obj\<in>set (myCocoDetection_load_target ?d 1). 4 \<le> length (bbox obj))
      \<and> on_image first_six 1 = Inr 1
      \<and> on_array first_six (map (\<lambda>obj. corners (bbox obj)) (myCocoDetection_load_target ?d 1))
          = Inr [10, 10, 60, 90, 5, 5]"
    by (simp add: myCocoDetection_init_def myCocoDetection_load_target_def demo_def
        table_coco_def is_valid_data_def subscript_def first_six_def corners_def)
  have b: "\<not> show_mode ?d' \<and> transform ?d' = Some as_tensor \<and> subscript (ids ?d') 0 = Inr 1
      \<and> load_image (coco ?d') 1 = Inr 1
      \<and> (\<forall>obj\<in>set (myCocolimit_load_target ?d' 1). 4 \<le> length (bbox obj))
      \<and> on_image as_tensor 1 = Inr 1
      \<and> on_array as_tensor (map (\<lambda>obj. corners (bbox obj)) (myCocolimit_load_target ?d' 1))
          = Inr [10, 10, 60, 90]"
    by (simp add: ids_myCocolimit_init catIds_myCocolimit_init coco_myCocolimit_init
        myCocolimit_load_target_eq myCocolimit_init_def Let_def demo_def
        table_coco_def is_valid_data_def subscript_def as_tensor_def corners_def)
  have c: "myCocolimit_load_target ?d' 1 = [\<lparr>bbox = [10, 10, 50, 80], category_id = 1\<rparr>]"
    by (simp add: catIds_myCocolimit_init coco_myCocolimit_init
        myCocolimit_load_target_eq demo_def table_coco_def)
  from reshape_is_the_only_check [of ?d first_six 0 1 1 1 "[10, 10, 60, 90, 5, 5]" id,
      THEN conjunct1] a
  have 1: "myCocoDetection_getitem id ?d 0 = Inl RuntimeError_shape"
    by simp
  from reshape_is_the_only_check [of _ as_tensor 0 1 1 1 "[10, 10, 60, 90]" id ?d',
      THEN conjunct2] b
  have 2: "myCocolimit_getitem id ?d' 0 = Inr (WithTargets 1 1 [[10, 10, 60, 90]] [1])"
    by (simp add: c int64_tensor_def)
  from 1 2 3 show ?thesis by simp
qed

subsection \<open>Indices\<close>

text \<open>
  The validated index list of \<open>demo\<close> has one element. Index \<open>-1\<close> is negative, and
  \<^verbatim>\<open>__getitem__\<close> returns the record of the last image for it: \<^verbatim>\<open>self.ids[index]\<close> is a
  subscript of a Python list.
\<close>

theorem negative_index_counterexample:
  "ids (myCocoDetection_init demo None True False) = [1]
   \<and> myCocoDetection_getitem id (myCocoDetection_init demo None True False) (- 1)
       = Inr (Plain 1 [[10, 10, 60, 90], [5, 5, 25, 25]] [1, 18])"
  by (simp add: myCocoDetection_getitem_def getitem_body_def myCocoDetection_load_target_def
      myCocoDetection_init_def demo_def table_coco_def is_valid_data_def subscript_def
      corner_box_def)

text \<open>
  Claim C9, as the code has it. For an index list of length \<open>n\<close>, \<^verbatim>\<open>__getitem__\<close> of
  either class raises IndexError, and returns no record, at every index \<open>\<ge> n\<close> and at
  every index \<open>< -n\<close>. An index from \<open>-n\<close> to \<open>-1\<close> is not out of range: it gives what the
  index \<open>n + index\<close> gives.
\<close>

theorem index_out_of_range:
  fixes d :: "('a::plus, 'img) myCocoDetection" and d' :: "('a, 'img) myCocolimit"
  shows "(int (length (ids d)) \<le> i \<or> i < - int (length (ids d)) \<longrightarrow>
            myCocoDetection_getitem f d i = Inl IndexError)
       \<and> (- int (length (ids d)) \<le> i \<and> i < 0 \<longrightarrow>
            myCocoDetection_getitem f d i = myCocoDetection_getitem f d (int (length (ids d)) + i))
       \<and> (int (length (ids d')) \<le> i \<or> i < - int (length (ids d')) \<longrightarrow>
            myCocolimit_getitem f d' i = Inl IndexError)
       \<and> (- int (length (ids d')) \<le> i \<and> i < 0 \<longrightarrow>
            myCocolimit_getitem f d' i = myCocolimit_getitem f d' (int (length (ids d')) + i))"
  unfolding myCocoDetection_getitem_def myCocolimit_getitem_def
  by (intro conjI impI; (erule conjE)?; (rule getitem_body_out_of_range getitem_body_negative); assumption)

theorem index_out_of_range_witness:
  "length (ids (myCocoDetection_init demo None True False)) = 1
   \<and> myCocoDetection_getitem id (myCocoDetection_init demo None True False) 1 = Inl IndexError
   \<and> myCocoDetection_getitem id (myCocoDetection_init demo None True False) (- 2) = Inl IndexError
   \<and> myCocoDetection_getitem id (myCocoDetection_init demo None True False) (- 1)
       = myCocoDetection_getitem id (myCocoDetection_init demo None True False) 0
   \<and> length (ids (myCocolimit_init demo None [''person'', ''dog''] True False)) = 2
   \<and> myCocolimit_getitem id (myCocolimit_init demo None [''person'', ''dog''] True False) 2
       = Inl IndexError
   \<and> myCocolimit_getitem id (myCocolimit_init demo None [''person'', ''dog''] True False) (- 1)
       = myCocolimit_getitem id (myCocolimit_init demo None [''person'', ''dog''] True False) 1"
proof -
  have n: "length (ids (myCocoDetection_init demo None True False)) = 1"
    by (simp add: ids_myCocoDetection_init demo_def table_coco_def is_valid_data_def)
  have m: "length (ids (myCocolimit_init demo None [''person'', ''dog''] True False)) = 2"
    by (simp add: ids_myCocolimit_init demo_def table_coco_def is_valid_data_def)
  note a = index_out_of_range [of "myCocoDetection_init demo None True False" 1
      id "myCocolimit_init demo None [''person'', ''dog''] True False"]
  note b = index_out_of_range [of "myCocoDetection_init demo None True False" "- 2"
      id "myCocolimit_init demo None [''person'', ''dog''] True False"]
  note c = index_out_of_range [of "myCocoDetection_init demo None True False" "- 1"
      id "myCocolimit_init demo None [''person'', ''dog''] True False"]
  note e = index_out_of_range [of "myCocoDetection_init demo None True False" 2
      id "myCocolimit_init demo None [''person'', ''dog''] True False"]
  from a b c e n m show ?thesis by simp
qed

subsection \<open>Validation\<close>

text \<open>
  Claim C10. With validation enabled, the index list of either class is a subsequence
  of the index list that the same construction has without validation (nothing is
  added, reordered or duplicated), and the annotations that the constructor loads for
  every image id it keeps satisfy \<open>is_valid_data\<close>.
\<close>

theorem validation_only_removes:
  "subseq (ids (myCocoDetection_init c tf True sh)) (ids (myCocoDetection_init c tf False sh))
   \<and> (\<forall>i\<in>set (ids (myCocoDetection_init c tf True sh)).
         is_valid_data (loadAnns c (getAnnIds c i)))
   \<and> subseq (ids (myCocolimit_init c tf cl True sh)) (ids (myCocolimit_init c tf cl False sh))
   \<and> (\<forall>i\<in>set (ids (myCocolimit_init c tf cl True sh)).
         is_valid_data (loadAnns c (getAnnIds c i)))"
  by (simp add: ids_myCocoDetection_init ids_myCocolimit_init)

theorem validation_only_removes_witness:
  "ids (myCocoDetection_init demo None False False) = [1, 2, 3, 4]
   \<and> ids (myCocoDetection_init demo None True False) = [1]
   \<and> subseq [1] [1, 2, 3, 4 :: int]
   \<and> is_valid_data (loadAnns demo (getAnnIds demo 1))
   \<and> ids (myCocolimit_init demo None [''person'', ''dog''] False False) = [1, 4, 1, 3]
   \<and> ids (myCocolimit_init demo None [''person'', ''dog''] True False) = [1, 1]
   \<and> subseq [1, 1] [1, 4, 1, 3 :: int]"
  using validation_only_removes [of demo None False "[''person'', ''dog'']"]
  by (simp add: demo_def table_coco_def myCocolimit_init_def myCocoDetection_init_def
      is_valid_data_def)

subsection \<open>The scenario of the specification\<close>

text \<open>
  With validation, the index list of the scenario holds image 1 only, and the record at
  index 0 has the box \<open>(10, 10, 60, 90)\<close> and the label of person.
\<close>

lemma end_to_end_scenario:
  "ids (myCocoDetection_init scenario None True True) = [1]
   \<and> myCocoDetection_getitem id (myCocoDetection_init scenario None True True) 0
       = Inr (Plain 1 [[Double 5 1, Double 5 1, Double 15 2, Double 45 1]] [1])"
  by code_simp

end
